theory Spec2Isabelle
  imports Complex_Main "HOL-Library.List_Lexorder" "HOL-Library.AList"
begin

section \<open>Errors and the numeric-buffer primitives the union array consumes\<close>

text \<open>
  The model covers one-dimensional \<open>tags\<close> and \<open>index\<close> buffers: an array is a list and
  its \<open>shape\<close> is the one-element list holding its length.  Every \<^verbatim>\<open>raise\<close> of
  \<^verbatim>\<open>awkward/array/union.py\<close>, and every exception of the buffer primitives it calls, is a
  value \<open>Inl e\<close> of the result type \<open>error + 'a\<close>.
\<close>

datatype error =
    ValueError string
  | TypeError string
  | IndexError string
  | RuntimeError string
  | NotImplementedError string

definition bnd :: "error + 'a \<Rightarrow> ('a \<Rightarrow> error + 'b) \<Rightarrow> error + 'b" where
  "bnd m f = (case m of Inl e \<Rightarrow> Inl e | Inr x \<Rightarrow> f x)"

definition shape :: "'a list \<Rightarrow> nat list" where
  "shape xs = [length xs]"

text \<open>\<^verbatim>\<open>a.max()\<close>: the reduction has no identity, so an empty buffer raises.\<close>

definition np_max :: "('a::linorder) list \<Rightarrow> error + 'a" where
  "np_max xs = (case xs of
       [] \<Rightarrow> Inl (ValueError ''zero-size array to reduction operation maximum which has no identity'')
     | y # ys \<Rightarrow> Inr (fold max ys y))"

text \<open>\<^verbatim>\<open>numpy.unique(a)\<close>: the distinct values in ascending order.\<close>

definition np_unique :: "('a::linorder) list \<Rightarrow> 'a list" where
  "np_unique xs = sort (remdups xs)"

text \<open>\<^verbatim>\<open>a == v\<close>, \<^verbatim>\<open>numpy.count_nonzero(mask)\<close> and \<^verbatim>\<open>numpy.arange(n)\<close>.\<close>

definition eq_mask :: "'a list \<Rightarrow> 'a \<Rightarrow> bool list" where
  "eq_mask xs v = map (\<lambda>x. x = v) xs"

definition count_nonzero :: "bool list \<Rightarrow> nat" where
  "count_nonzero msk = length (filter (\<lambda>b. b) msk)"

definition arange :: "nat \<Rightarrow> int list" where
  "arange n = map int [0..<n]"

text \<open>
  \<^verbatim>\<open>a[mask]\<close> for a boolean mask: the buffer primitive refuses a mask whose length is not
  the length of \<open>a\<close> (\<^verbatim>\<open>IndexError: boolean index did not match indexed array\<close>).
\<close>

definition mask_select :: "'a list \<Rightarrow> bool list \<Rightarrow> 'a list" where
  "mask_select xs msk = map fst (filter snd (zip xs msk))"

definition mask_get :: "'a list \<Rightarrow> bool list \<Rightarrow> error + 'a list" where
  "mask_get xs msk =
     (if length msk \<noteq> length xs
      then Inl (IndexError ''boolean index did not match indexed array along dimension 0'')
      else Inr (mask_select xs msk))"

text \<open>
  \<^verbatim>\<open>a[mask] = vs\<close>: the selected positions receive the values of \<open>vs\<close> in order.  Both
  callers pass \<^verbatim>\<open>arange(count_nonzero(mask))\<close>, whose length is the number of selected
  positions.  \<^verbatim>\<open>a[mask] = v\<close> with a scalar \<open>v\<close> stores \<open>v\<close> at every selected position.
\<close>

fun mask_assign :: "'a list \<Rightarrow> bool list \<Rightarrow> 'a list \<Rightarrow> 'a list" where
  "mask_assign (x # xs) (m # ms) vs =
     (if m then (case vs of v # vs' \<Rightarrow> v # mask_assign xs ms vs' | [] \<Rightarrow> x # mask_assign xs ms [])
      else x # mask_assign xs ms vs)"
| "mask_assign xs _ _ = xs"

definition mask_fill :: "'a list \<Rightarrow> bool list \<Rightarrow> 'a \<Rightarrow> 'a list" where
  "mask_fill xs msk v = map (\<lambda>(x, m). if m then v else x) (zip xs msk)"

text \<open>
  Positional selectors on a one-dimensional buffer: an integer, a slice
  \<^verbatim>\<open>start:stop:step\<close>, an integer array and a boolean mask.  An integer selects one element
  (a zero-dimensional result), the others select a one-dimensional buffer.
\<close>

datatype sel =
    SInt int
  | SSlice "int option" "int option" "int option"
  | SIntArr "int list"
  | SBoolArr "bool list"

datatype 'a picked = Scalar 'a | Array "'a list"

definition in_bounds :: "nat \<Rightarrow> int \<Rightarrow> bool" where
  "in_bounds n i = (- int n \<le> i \<and> i < int n)"

definition wrap_index :: "nat \<Rightarrow> int \<Rightarrow> nat" where
  "wrap_index n i = nat (if i < 0 then i + int n else i)"

text \<open>Python's \<^verbatim>\<open>slice.indices(n)\<close> followed by \<^verbatim>\<open>range(start, stop, step)\<close>.\<close>

definition slice_positions :: "nat \<Rightarrow> int option \<Rightarrow> int option \<Rightarrow> int \<Rightarrow> nat list" where
  "slice_positions n start stop step =
     (let len = int n;
          lower = (if step < 0 then - 1 else 0);
          upper = (if step < 0 then len - 1 else len);
          clip = (\<lambda>v. if v < 0 then max (v + len) lower else min v upper);
          lo = (case start of None \<Rightarrow> (if step < 0 then upper else lower) | Some v \<Rightarrow> clip v);
          hi = (case stop of None \<Rightarrow> (if step < 0 then lower else upper) | Some v \<Rightarrow> clip v);
          cnt = (if step < 0 then (lo - hi - step - 1) div (- step)
                 else (hi - lo + step - 1) div step)
      in map (\<lambda>k. nat (lo + int k * step)) [0..<nat cnt])"

definition nd_getitem :: "'a list \<Rightarrow> sel \<Rightarrow> error + 'a picked" where
  "nd_getitem xs w =
     (case w of
        SInt i \<Rightarrow>
          (if in_bounds (length xs) i then Inr (Scalar (xs ! wrap_index (length xs) i))
           else Inl (IndexError ''index is out of bounds for axis 0''))
      | SSlice start stop step \<Rightarrow>
          (if step = Some 0 then Inl (ValueError ''slice step cannot be zero'')
           else Inr (Array (map (\<lambda>p. xs ! p)
                  (slice_positions (length xs) start stop (case step of None \<Rightarrow> 1 | Some s \<Rightarrow> s)))))
      | SIntArr is \<Rightarrow>
          (if list_all (in_bounds (length xs)) is
           then Inr (Array (map (\<lambda>i. xs ! wrap_index (length xs) i) is))
           else Inl (IndexError ''index is out of bounds for axis 0''))
      | SBoolArr msk \<Rightarrow> bnd (mask_get xs msk) (\<lambda>ys. Inr (Array ys)))"

section \<open>Type promotion\<close>

text \<open>
  The scalar types of the buffer engine that \<^verbatim>\<open>uniondtype\<close> inspects through
  \<^verbatim>\<open>x.dtype.type\<close>.  \<open>TimeDelta64\<close> stands for the scalar types that are subclasses of
  \<^verbatim>\<open>numpy.integer\<close> without being one of the eight sized integers; \<open>ObjectT\<close>, \<open>StrT\<close>,
  \<open>VoidT\<close> and \<open>DateTime64\<close> are outside the numeric classes.
\<close>

datatype nptype =
    BoolT
  | Int8 | UInt8 | Int16 | UInt16 | Int32 | UInt32 | Int64 | UInt64
  | TimeDelta64
  | Float16 | Float32 | Float64 | Float128
  | Complex64 | Complex128 | Complex256
  | ObjectT | StrT | VoidT | DateTime64

definition is_integer :: "nptype \<Rightarrow> bool" where
  "is_integer t = (t \<in> set [Int8, UInt8, Int16, UInt16, Int32, UInt32, Int64, UInt64, TimeDelta64])"

definition is_floating :: "nptype \<Rightarrow> bool" where
  "is_floating t = (t \<in> set [Float16, Float32, Float64, Float128])"

definition is_complexfloating :: "nptype \<Rightarrow> bool" where
  "is_complexfloating t = (t \<in> set [Complex64, Complex128, Complex256])"

text \<open>
  \<^verbatim>\<open>uniondtype(cls, arrays)\<close>, on the list of the arrays' scalar types.  The two flags are
  \<^verbatim>\<open>hasattr(numpy, "float128")\<close> and \<^verbatim>\<open>hasattr(numpy, "complex256")\<close>.
\<close>

definition uniondtype :: "bool \<Rightarrow> bool \<Rightarrow> nptype list \<Rightarrow> nptype" where
  "uniondtype has_float128 has_complex256 arrays =
     (if list_all (\<lambda>x. x = BoolT) arrays then BoolT
      else if list_all (\<lambda>x. x = Int8) arrays then Int8
      else if list_all (\<lambda>x. x = UInt8) arrays then UInt8
      else if list_all (\<lambda>x. x \<in> set [Int8, UInt8, Int16]) arrays then Int16
      else if list_all (\<lambda>x. x \<in> set [UInt8, UInt16]) arrays then UInt16
      else if list_all (\<lambda>x. x \<in> set [Int8, UInt8, Int16, UInt16, Int32]) arrays then Int32
      else if list_all (\<lambda>x. x \<in> set [UInt8, UInt16, UInt32]) arrays then UInt32
      else if list_all (\<lambda>x. x \<in> set [Int8, UInt8, Int16, UInt16, Int32, UInt32, Int64]) arrays then Int64
      else if list_all (\<lambda>x. x \<in> set [UInt8, UInt16, UInt32, UInt64]) arrays then UInt64
      else if list_all (\<lambda>x. x = Float16) arrays then Float16
      else if list_all (\<lambda>x. x \<in> set [Float16, Float32]) arrays then Float32
      else if list_all (\<lambda>x. x \<in> set [Float16, Float32, Float64]) arrays then Float64
      else if has_float128 \<and> list_all (\<lambda>x. x \<in> set [Float16, Float32, Float64, Float128]) arrays
        then Float128
      else if list_all (\<lambda>x. is_integer x \<or> is_floating x) arrays then Float64
      else if list_all (\<lambda>x. x = Complex64) arrays then Complex64
      else if list_all (\<lambda>x. x \<in> set [Complex64, Complex128]) arrays then Complex128
      else if has_complex256 \<and> list_all (\<lambda>x. x \<in> set [Complex64, Complex128, Complex256]) arrays
        then Complex256
      else if list_all (\<lambda>x. is_integer x \<or> is_floating x \<or> is_complexfloating x) arrays
        then Complex128
      else ObjectT)"

text \<open>
  The types the promotion lattice ranges over: boolean, integer, floating and complex.
  Every other branch type is non-numeric.
\<close>

definition in_lattice :: "nptype \<Rightarrow> bool" where
  "in_lattice t = (t = BoolT \<or> is_integer t \<or> is_floating t \<or> is_complexfloating t)"

section \<open>The structural model\<close>

text \<open>
  A union array is the triple of its buffers.  The two caches of the class (\<^verbatim>\<open>_isvalid\<close>
  and \<^verbatim>\<open>_dtype\<close>) are not fields of the model: every property setter clears them, the
  setters are the only writers of the three buffers here, and so a set flag only ever skips
  a check that has passed on the same buffers.  The model runs the check at every call of
  \<^verbatim>\<open>_valid\<close>.
\<close>

record 'c UnionArray =
  tags :: "nat list"
  index :: "int list"
  contents :: "'c list"

text \<open>
  The class attributes that switch checking on and off (\<^verbatim>\<open>check_prop_valid\<close>,
  \<^verbatim>\<open>check_whole_valid\<close>, \<^verbatim>\<open>allow_iter\<close>) are inherited from the base class of the
  arrays, which is not among the sources; they are parameters of the model.
\<close>

record config =
  check_prop_valid :: bool
  check_whole_valid :: bool
  allow_iter :: bool

text \<open>
  Modelled from the spec: the class constant \<^verbatim>\<open>TAGTYPE\<close> is declared in the base class,
  which is not among the sources.  The spec gives \<open>tags\<close> the "smallest unsigned integer
  width that fits \<open>max(tags)\<close>" and calls a tag a "small unsigned integer", so the default
  tag type is the narrowest unsigned one, eight bits wide.
\<close>

definition TAGTYPE :: nat where
  "TAGTYPE = 8"

text \<open>\<^verbatim>\<open>numpy.iinfo(t).max\<close> and \<^verbatim>\<open>a.astype(t)\<close> for the unsigned type of \<open>w\<close> bits.\<close>

definition iinfo_max :: "nat \<Rightarrow> int" where
  "iinfo_max w = 2 ^ w - 1"

definition astype_unsigned :: "nat \<Rightarrow> int list \<Rightarrow> nat list" where
  "astype_unsigned w xs = map (\<lambda>v. nat (v mod 2 ^ w)) xs"

text \<open>
  The object \<^verbatim>\<open>cls.__new__(cls)\<close> returns, before any attribute is assigned.  Every
  constructor assigns a buffer before reading it.
\<close>

definition blank :: "'c UnionArray" where
  "blank = \<lparr>tags = [], index = [], contents = []\<rparr>"

text \<open>
  The \<^verbatim>\<open>tags\<close> setter.  The value is cast to an unsigned type before the property checks
  run, so the checks see the cast buffer; the integer-dtype check then cannot fail and is
  left out.
\<close>

definition set_tags :: "config \<Rightarrow> int list \<Rightarrow> 'c UnionArray \<Rightarrow> error + 'c UnionArray" where
  "set_tags cfg val self =
     bnd (np_max val) (\<lambda>tagsmax.
     bnd (if tagsmax \<le> iinfo_max TAGTYPE then Inr (astype_unsigned TAGTYPE val)
          else if tagsmax \<le> iinfo_max 8 then Inr (astype_unsigned 8 val)
          else if tagsmax \<le> iinfo_max 16 then Inr (astype_unsigned 16 val)
          else if tagsmax \<le> iinfo_max 32 then Inr (astype_unsigned 32 val)
          else if tagsmax \<le> iinfo_max 64 then Inr (astype_unsigned 64 val)
          else Inl (ValueError ''maximum tag must be at most the largest 64-bit unsigned integer''))
       (\<lambda>cast.
     if check_prop_valid cfg \<and> length cast = 0
       then Inl (ValueError ''tags must be non-empty'')
     else if check_prop_valid cfg \<and> list_ex (\<lambda>v. v < 0) cast
       then Inl (ValueError ''tags must be a non-negative array'')
     else Inr (self\<lparr>tags := cast\<rparr>)))"

definition set_index :: "config \<Rightarrow> int list \<Rightarrow> 'c UnionArray \<Rightarrow> error + 'c UnionArray" where
  "set_index cfg val self =
     (if check_prop_valid cfg \<and> list_ex (\<lambda>v. v < 0) val
        then Inl (ValueError ''index must be a non-negative array'')
      else Inr (self\<lparr>index := val\<rparr>))"

definition set_contents :: "config \<Rightarrow> 'c list \<Rightarrow> 'c UnionArray \<Rightarrow> error + 'c UnionArray" where
  "set_contents cfg val self =
     (if check_prop_valid cfg \<and> length val = 0
        then Inl (ValueError ''contents must be non-empty'')
      else Inr (self\<lparr>contents := val\<rparr>))"

text \<open>\<^verbatim>\<open>UnionArray(tags, index, contents)\<close>.\<close>

definition init :: "config \<Rightarrow> int list \<Rightarrow> int list \<Rightarrow> 'c list \<Rightarrow> error + 'c UnionArray" where
  "init cfg tags0 index0 contents0 =
     bnd (set_tags cfg tags0 blank) (\<lambda>self.
     bnd (set_index cfg index0 self) (\<lambda>self.
     set_contents cfg contents0 self))"

text \<open>
  \<^verbatim>\<open>len(t) > 0 and t.max() >= n\<close>, the test of invariant I2 that \<^verbatim>\<open>fromtags\<close> and
  \<^verbatim>\<open>_valid\<close> share.
\<close>

definition max_tag_too_big :: "nat list \<Rightarrow> nat \<Rightarrow> bool" where
  "max_tag_too_big ts n =
     (length ts > 0 \<and> (case np_max ts of Inl e \<Rightarrow> False | Inr m \<Rightarrow> m \<ge> n))"

text \<open>
  The sequential factory.  The loop runs over \<^verbatim>\<open>enumerate(out._contents)\<close>, that is over
  the tags \<open>0, 1, \<dots>, len(contents) - 1\<close>, and numbers the positions of each tag.
\<close>

definition assign_arange :: "int list \<Rightarrow> bool list \<Rightarrow> int list" where
  "assign_arange idx msk = mask_assign idx msk (arange (count_nonzero msk))"

definition fromtags_index :: "nat list \<Rightarrow> nat \<Rightarrow> int list" where
  "fromtags_index ts n =
     fold (\<lambda>tag idx. assign_arange idx (eq_mask ts tag)) [0..<n] (replicate (length ts) (- 1))"

definition fromtags :: "config \<Rightarrow> int list \<Rightarrow> 'c list \<Rightarrow> error + 'c UnionArray" where
  "fromtags cfg tags0 contents0 =
     bnd (set_tags cfg tags0 blank) (\<lambda>out.
     bnd (set_contents cfg contents0 out) (\<lambda>out.
     if max_tag_too_big (tags out) (length (contents out))
       then Inl (ValueError ''maximum tag is too large for the number of contents arrays'')
     else set_index cfg (fromtags_index (tags out) (length (contents out))) out))"

text \<open>
  \<^verbatim>\<open>copy(tags=None, index=None, contents=None)\<close>: a shallow copy, with the given buffers
  assigned through the setters.  The stored tags are handed to the setter as the integers
  they are.
\<close>

definition copy ::
  "config \<Rightarrow> 'c UnionArray \<Rightarrow> int list option \<Rightarrow> int list option \<Rightarrow> 'c list option
     \<Rightarrow> error + 'c UnionArray" where
  "copy cfg self tags0 index0 contents0 =
     bnd (case tags0 of None \<Rightarrow> Inr self | Some t \<Rightarrow> set_tags cfg t self) (\<lambda>out.
     bnd (case index0 of None \<Rightarrow> Inr out | Some i \<Rightarrow> set_index cfg i out) (\<lambda>out.
     (case contents0 of None \<Rightarrow> Inr out | Some c \<Rightarrow> set_contents cfg c out)))"

text \<open>\<^verbatim>\<open>t[k]\<close> on the tuple of contents: out of range raises.\<close>

definition tuple_get :: "'c list \<Rightarrow> nat \<Rightarrow> error + 'c" where
  "tuple_get cs k =
     (if k < length cs then Inr (cs ! k) else Inl (IndexError ''tuple index out of range''))"

text \<open>
  \<^verbatim>\<open>_valid\<close>.  Branch arrays are external collaborators: the length of a branch is the
  parameter \<open>clen\<close>.  The first two tests compare the numbers of dimensions and the
  non-leading dimensions, as the source does.
\<close>

fun check_maxindex ::
  "('c \<Rightarrow> nat) \<Rightarrow> 'c UnionArray \<Rightarrow> int list \<Rightarrow> nat list \<Rightarrow> error + unit" where
  "check_maxindex clen self idx [] = Inr ()"
| "check_maxindex clen self idx (tag # rest) =
     bnd (mask_get idx (eq_mask (tags self) tag)) (\<lambda>picked.
     bnd (np_max picked) (\<lambda>maxindex.
     bnd (tuple_get (contents self) tag) (\<lambda>c.
     if maxindex \<ge> int (clen c)
       then Inl (ValueError ''maximum index must be less than the length of all contents arrays'')
     else check_maxindex clen self idx rest)))"

definition valid_checks :: "('c \<Rightarrow> nat) \<Rightarrow> 'c UnionArray \<Rightarrow> error + unit" where
  "valid_checks clen self =
     (if length (shape (tags self)) > length (shape (index self))
        then Inl (ValueError ''tags length must be less than or equal to index length'')
      else if tl (shape (tags self)) \<noteq> tl (shape (index self))
        then Inl (ValueError ''tags dimensionality must be equal to index dimensionality'')
      else if max_tag_too_big (tags self) (length (contents self))
        then Inl (ValueError ''maximum tag is too large for the number of contents arrays'')
      else check_maxindex clen self (take (length (tags self)) (index self))
             (np_unique (tags self)))"

definition valid :: "config \<Rightarrow> ('c \<Rightarrow> nat) \<Rightarrow> 'c UnionArray \<Rightarrow> error + unit" where
  "valid cfg clen self = (if check_whole_valid cfg then valid_checks clen self else Inr ())"

text \<open>\<^verbatim>\<open>issequential\<close>: the mask is applied to the whole \<open>index\<close> buffer.\<close>

fun sequential_loop :: "'c UnionArray \<Rightarrow> nat list \<Rightarrow> error + bool" where
  "sequential_loop self [] = Inr True"
| "sequential_loop self (tag # rest) =
     bnd (mask_get (index self) (eq_mask (tags self) tag)) (\<lambda>picked.
     if picked \<noteq> arange (count_nonzero (eq_mask (tags self) tag)) then Inr False
     else sequential_loop self rest)"

definition issequential :: "config \<Rightarrow> ('c \<Rightarrow> nat) \<Rightarrow> 'c UnionArray \<Rightarrow> error + bool" where
  "issequential cfg clen self =
     bnd (valid cfg clen self) (\<lambda>_. sequential_loop self (np_unique (tags self)))"

text \<open>
  \<^verbatim>\<open>__awkward_persist__\<close>.  The collaborator \<^verbatim>\<open>fill\<close> stores a buffer and returns its
  description; the model keeps the buffer itself.  The description names the constructor to
  replay: \<^verbatim>\<open>fromtags\<close> for the compact form, the class itself for the general form.
\<close>

datatype 'c persisted =
    Compact "nat list" "'c list"
  | General "nat list" "int list" "'c list"

definition awkward_persist :: "config \<Rightarrow> ('c \<Rightarrow> nat) \<Rightarrow> 'c UnionArray \<Rightarrow> error + 'c persisted" where
  "awkward_persist cfg clen self =
     bnd (valid cfg clen self) (\<lambda>_.
     bnd (issequential cfg clen self) (\<lambda>sequential.
     if sequential then Inr (Compact (tags self) (contents self))
     else Inr (General (tags self) (index self) (contents self))))"

text \<open>Replaying a description calls the constructor it names on its arguments.\<close>

definition replay :: "config \<Rightarrow> 'c persisted \<Rightarrow> error + 'c UnionArray" where
  "replay cfg d =
     (case d of
        Compact t c \<Rightarrow> fromtags cfg (map int t) c
      | General t i c \<Rightarrow> init cfg (map int t) i c)"

text \<open>\<^verbatim>\<open>__len__\<close>.\<close>

definition len :: "'c UnionArray \<Rightarrow> nat" where
  "len self = length (tags self)"

section \<open>Branch arrays and the indexing engine\<close>

text \<open>
  A selector of \<^verbatim>\<open>__getitem__\<close>, \<^verbatim>\<open>__setitem__\<close> and \<^verbatim>\<open>__delitem__\<close>: a field name, a
  list of field names, a tuple of positional selectors, or one positional selector.
\<close>

datatype wh =
    WField string
  | WFields "string list"
  | WTuple "sel list"
  | WSel sel

text \<open>
  \<^verbatim>\<open>_util_isstringslice\<close> belongs to the base class; on these selectors it holds for a
  string and for a non-empty sequence of strings, and fails for every tuple and for the
  empty list.
\<close>

definition isstringslice :: "wh \<Rightarrow> bool" where
  "isstringslice w = (case w of WField f \<Rightarrow> True | WFields fs \<Rightarrow> fs \<noteq> [] | _ \<Rightarrow> False)"

text \<open>
  The value handed to a field assignment: \<^verbatim>\<open>IndexedArray(inverseindex, what)\<close>, the lazy
  view whose element \<open>k\<close> is \<^verbatim>\<open>what[inverseindex[k]]\<close>.  The assigned array \<^verbatim>\<open>what\<close> is
  a scalar item or a sequence of rows.
\<close>

datatype 'e arr = Item 'e | Rows "'e arr list"

datatype 'e indexed = IndexedArray "int list" "'e arr"

definition arr_shape :: "'e arr \<Rightarrow> nat list" where
  "arr_shape a = (case a of Item x \<Rightarrow> [] | Rows rs \<Rightarrow> [length rs])"

definition arr_rows :: "'e arr \<Rightarrow> 'e arr list" where
  "arr_rows a = (case a of Item x \<Rightarrow> [] | Rows rs \<Rightarrow> rs)"

text \<open>
  Branch arrays are external collaborators, consumed through a narrow interface: the
  length \<^verbatim>\<open>len(c)\<close>, the positional read \<^verbatim>\<open>c[(index,) + tail]\<close>, the field projection
  \<^verbatim>\<open>c[where]\<close>, the field assignment \<^verbatim>\<open>c[name] = value\<close> and the field deletion
  \<^verbatim>\<open>del c[name]\<close>.  The interface is a parameter of every operation that uses it.
\<close>

record ('c, 'r, 'e) branch =
  blen :: "'c \<Rightarrow> nat"
  bget :: "'c \<Rightarrow> int picked \<Rightarrow> sel list \<Rightarrow> error + 'r"
  bfield :: "'c \<Rightarrow> wh \<Rightarrow> error + 'c"
  bset :: "'c \<Rightarrow> string \<Rightarrow> 'e indexed \<Rightarrow> error + 'c"
  bdel :: "'c \<Rightarrow> string \<Rightarrow> error + 'c"

text \<open>
  What a read returns: the result of a branch's own read (no union wrapper), or a union
  array.
\<close>

datatype ('c, 'r) item = Branch 'r | Union "'c UnionArray"

fun map_err :: "('a \<Rightarrow> error + 'b) \<Rightarrow> 'a list \<Rightarrow> error + 'b list" where
  "map_err f [] = Inr []"
| "map_err f (x # xs) = bnd (f x) (\<lambda>y. bnd (map_err f xs) (\<lambda>ys. Inr (y # ys)))"

text \<open>\<^verbatim>\<open>__iter__\<close>: a generator; the model returns the items yielded and the error that
  ended the iteration, if one did.\<close>

definition element :: "('c, 'r, 'e) branch \<Rightarrow> 'c UnionArray \<Rightarrow> nat \<Rightarrow> error + 'r" where
  "element B self i =
     bnd (nd_getitem (tags self) (SInt (int i))) (\<lambda>t.
     bnd (nd_getitem (index self) (SInt (int i))) (\<lambda>k.
     (case (t, k) of
        (Scalar tag, Scalar pos) \<Rightarrow>
          bnd (tuple_get (contents self) tag) (\<lambda>c. bget B c (Scalar pos) [])
      | _ \<Rightarrow> Inl (TypeError ''unreachable: an integer selects one element''))))"

fun iter_from :: "('c, 'r, 'e) branch \<Rightarrow> 'c UnionArray \<Rightarrow> nat list \<Rightarrow> 'r list \<times> error option" where
  "iter_from B self [] = ([], None)"
| "iter_from B self (i # rest) =
     (case element B self i of
        Inl e \<Rightarrow> ([], Some e)
      | Inr x \<Rightarrow> (case iter_from B self rest of (xs, e) \<Rightarrow> (x # xs, e)))"

definition iter ::
  "config \<Rightarrow> ('c, 'r, 'e) branch \<Rightarrow> 'c UnionArray \<Rightarrow> bool \<Rightarrow> 'r list \<times> error option" where
  "iter cfg B self checkiter =
     (if checkiter \<and> \<not> allow_iter cfg then ([], Some (RuntimeError ''refusing to iterate''))
      else (case valid cfg (blen B) self of
              Inl e \<Rightarrow> ([], Some e)
            | Inr u \<Rightarrow> iter_from B self [0..<length (tags self)]))"

text \<open>
  \<^verbatim>\<open>__getitem__\<close>.  With one-dimensional tags the head of a tuple selector is its first
  component and the tail is the rest.  The empty list is not a string slice; as a
  positional selector it is the empty integer array.
\<close>

definition getitem_fields ::
  "config \<Rightarrow> ('c, 'r, 'e) branch \<Rightarrow> 'c UnionArray \<Rightarrow> wh \<Rightarrow> error + ('c, 'r) item" where
  "getitem_fields cfg B self w =
     bnd (map_err (\<lambda>tag. bnd (tuple_get (contents self) tag) (\<lambda>c. bfield B c w))
            (np_unique (tags self))) (\<lambda>cs.
     if length cs = 0
       then bnd (tuple_get (contents self) 0) (\<lambda>c.
            bnd (bfield B c w) (\<lambda>c0.
            bnd (copy cfg self None None (Some [c0])) (\<lambda>out. Inr (Union out))))
     else bnd (copy cfg self None None (Some cs)) (\<lambda>out. Inr (Union out)))"

definition getitem_positional ::
  "config \<Rightarrow> ('c, 'r, 'e) branch \<Rightarrow> 'c UnionArray \<Rightarrow> sel \<Rightarrow> sel list \<Rightarrow> error + ('c, 'r) item" where
  "getitem_positional cfg B self head tail =
     bnd (nd_getitem (tags self) head) (\<lambda>tags1.
     bnd (nd_getitem (take (length (tags self)) (index self)) head) (\<lambda>index1.
     (case (tags1, index1) of
        (Scalar t, Scalar i) \<Rightarrow>
          bnd (tuple_get (contents self) t) (\<lambda>c.
          bnd (bget B c (Scalar i) tail) (\<lambda>r. Inr (Branch r)))
      | (Array ts, Array is) \<Rightarrow>
          (if length ts = 0
             then bnd (tuple_get (contents self) 0) (\<lambda>c.
                  bnd (bget B c (Array is) tail) (\<lambda>r. Inr (Branch r)))
           else if list_all (\<lambda>t. t = hd ts) ts
             then bnd (tuple_get (contents self) (hd ts)) (\<lambda>c.
                  bnd (bget B c (Array is) tail) (\<lambda>r. Inr (Branch r)))
           else bnd (copy cfg self (Some (map int ts)) (Some is) None) (\<lambda>out. Inr (Union out)))
      | _ \<Rightarrow> Inl (TypeError ''len() of unsized object''))))"

definition getitem ::
  "config \<Rightarrow> ('c, 'r, 'e) branch \<Rightarrow> 'c UnionArray \<Rightarrow> wh \<Rightarrow> error + ('c, 'r) item" where
  "getitem cfg B self w =
     bnd (valid cfg (blen B) self) (\<lambda>u.
     if isstringslice w then getitem_fields cfg B self w
     else (case w of
        WTuple [] \<Rightarrow> Inr (Union self)
      | WTuple (head # tail) \<Rightarrow> getitem_positional cfg B self head tail
      | WSel head \<Rightarrow> getitem_positional cfg B self head []
      | _ \<Rightarrow> getitem_positional cfg B self (SIntArr []) []))"

text \<open>
  \<^verbatim>\<open>__setitem__\<close> and \<^verbatim>\<open>__delitem__\<close> mutate the branches in place, one tag after the
  other; an error in the middle leaves the earlier branches modified.  The model returns
  the array after the call together with the error, if one was raised.  The permutation
  utility \<^verbatim>\<open>IndexedArray.invert\<close> belongs to another module and is the parameter \<open>invert\<close>.
\<close>

fun assign_fields ::
  "('c, 'r, 'e) branch \<Rightarrow> 'c UnionArray \<Rightarrow> nat \<Rightarrow> int list \<Rightarrow> (string \<times> 'e arr) list
     \<Rightarrow> 'c UnionArray \<times> error option" where
  "assign_fields B self tag inverseindex [] = (self, None)"
| "assign_fields B self tag inverseindex ((x, y) # rest) =
     (case bnd (tuple_get (contents self) tag) (\<lambda>c. bset B c x (IndexedArray inverseindex y)) of
        Inl e \<Rightarrow> (self, Some e)
      | Inr c \<Rightarrow>
          assign_fields B (self\<lparr>contents := (contents self)[tag := c]\<rparr>) tag inverseindex rest)"

fun setitem_loop ::
  "('c, 'r, 'e) branch \<Rightarrow> (int list \<Rightarrow> error + int list) \<Rightarrow> 'c UnionArray
     \<Rightarrow> (string \<times> 'e arr) list \<Rightarrow> nat list \<Rightarrow> 'c UnionArray \<times> error option" where
  "setitem_loop B invert self kvs [] = (self, None)"
| "setitem_loop B invert self kvs (tag # rest) =
     (case bnd (mask_get (take (length (tags self)) (index self)) (eq_mask (tags self) tag)) invert of
        Inl e \<Rightarrow> (self, Some e)
      | Inr inverseindex \<Rightarrow>
          (case assign_fields B self tag inverseindex kvs of
             (self1, Some e) \<Rightarrow> (self1, Some e)
           | (self1, None) \<Rightarrow> setitem_loop B invert self1 kvs rest))"

definition setitem ::
  "('c, 'r, 'e) branch \<Rightarrow> (int list \<Rightarrow> error + int list) \<Rightarrow> 'c UnionArray \<Rightarrow> wh \<Rightarrow> 'e arr
     \<Rightarrow> 'c UnionArray \<times> error option" where
  "setitem B invert self w what =
     (if take (length (shape (tags self))) (arr_shape what) \<noteq> shape (tags self)
        then (self, Some (ValueError ''array to assign does not have the same starting shape as tags''))
      else (case w of
          WField name \<Rightarrow> setitem_loop B invert self [(name, what)] (np_unique (tags self))
        | WFields names \<Rightarrow>
            (if names = [] then (self, Some (TypeError ''invalid index for assigning column to Table''))
             else if length names \<noteq> length (arr_rows what)
               then (self, Some (ValueError ''number of keys does not match number of provided arrays''))
             else setitem_loop B invert self (zip names (arr_rows what)) (np_unique (tags self)))
        | _ \<Rightarrow> (self, Some (TypeError ''invalid index for assigning column to Table''))))"

fun delete_fields ::
  "('c, 'r, 'e) branch \<Rightarrow> 'c UnionArray \<Rightarrow> nat \<Rightarrow> string list \<Rightarrow> 'c UnionArray \<times> error option" where
  "delete_fields B self tag [] = (self, None)"
| "delete_fields B self tag (x # rest) =
     (case bnd (tuple_get (contents self) tag) (\<lambda>c. bdel B c x) of
        Inl e \<Rightarrow> (self, Some e)
      | Inr c \<Rightarrow> delete_fields B (self\<lparr>contents := (contents self)[tag := c]\<rparr>) tag rest)"

fun delitem_loop ::
  "('c, 'r, 'e) branch \<Rightarrow> 'c UnionArray \<Rightarrow> string list \<Rightarrow> nat list \<Rightarrow> 'c UnionArray \<times> error option" where
  "delitem_loop B self names [] = (self, None)"
| "delitem_loop B self names (tag # rest) =
     (case delete_fields B self tag names of
        (self1, Some e) \<Rightarrow> (self1, Some e)
      | (self1, None) \<Rightarrow> delitem_loop B self1 names rest)"

definition delitem ::
  "('c, 'r, 'e) branch \<Rightarrow> 'c UnionArray \<Rightarrow> wh \<Rightarrow> 'c UnionArray \<times> error option" where
  "delitem B self w =
     (case w of
        WField name \<Rightarrow> delitem_loop B self [name] (np_unique (tags self))
      | WFields names \<Rightarrow>
          (if names = [] then (self, Some (TypeError ''invalid index for assigning column to Table''))
           else delitem_loop B self names (np_unique (tags self)))
      | _ \<Rightarrow> (self, Some (TypeError ''invalid index for assigning column to Table'')))"

section \<open>The dispatch engine\<close>

text \<open>
  The elementwise operation is the external collaborator \<open>ufunc\<close>.  It receives the
  operands after substitution (a union operand replaced by its read under the group's mask)
  and returns one array, a tuple of slots (each an array or something else), or something
  that is not an array.
\<close>

datatype ('o, 's) slot = SlotArray 'o | SlotOther 's

datatype ('o, 's) ures = ResArray 'o | ResTuple "('o, 's) slot list" | ResOther 's

datatype ('o, 's) uout =
    OutUnion "'o UnionArray"
  | OutTuple "('o UnionArray + ('o, 's) slot) list"
  | OutNone
  | NotImplemented

text \<open>
  The width in bits of a stored tag buffer: the one the \<^verbatim>\<open>tags\<close> setter chose for its
  maximum.
\<close>

definition tag_bits :: "nat list \<Rightarrow> nat" where
  "tag_bits ts =
     (case np_max ts of
        Inl e \<Rightarrow> TAGTYPE
      | Inr m \<Rightarrow>
          (if int m \<le> iinfo_max TAGTYPE then TAGTYPE
           else if int m \<le> iinfo_max 8 then 8
           else if int m \<le> iinfo_max 16 then 16
           else if int m \<le> iinfo_max 32 then 32
           else 64))"

text \<open>
  \<^verbatim>\<open>numpy.stack(tags, axis=-1).view([(str(i), x.dtype) ...]).reshape(tags[0].shape)\<close>: the
  stacked rows are reinterpreted as records with one field per operand.  The
  reinterpretation needs the record to be as wide as a stacked row, which holds exactly
  when all tag buffers have the same width; otherwise the buffer engine raises.  The
  records compare and sort field by field, as the lists of tags do.
\<close>

definition stack_view :: "nat list list \<Rightarrow> error + nat list list" where
  "stack_view tagss =
     (if list_all (\<lambda>t. tag_bits t = tag_bits (hd tagss)) tagss
      then Inr (map (\<lambda>i. map (\<lambda>t. t ! i) tagss) [0..<length (hd tagss)])
      else Inl (ValueError ''new type not compatible with array''))"

text \<open>The loop state: \<open>outtags\<close>, \<open>outindex\<close>, \<open>out\<close> and the dictionary \<open>contents\<close>.\<close>

type_synonym ('o, 's) ustate =
  "nat list \<times> int list \<times> ('o, 's) slot list option \<times> (nat option \<rightharpoonup> 'o list)"

fun collect_slots ::
  "(nat option \<rightharpoonup> 'o list) \<Rightarrow> (nat \<times> ('o, 's) slot) list \<Rightarrow> (nat option \<rightharpoonup> 'o list)" where
  "collect_slots cs [] = cs"
| "collect_slots cs ((i, x) # rest) =
     (case x of
        SlotArray a \<Rightarrow>
          collect_slots (cs(Some i \<mapsto> (case cs (Some i) of None \<Rightarrow> [] | Some l \<Rightarrow> l) @ [a])) rest
      | SlotOther s \<Rightarrow> collect_slots cs rest)"

text \<open>
  One pass of the loop.  \<open>outtags\<close> is a buffer of the default tag type, so the group
  number is stored modulo \<open>2 ^ TAGTYPE\<close>.
\<close>

definition ufunc_step ::
  "config \<Rightarrow> ('c, 'r, 'e) branch \<Rightarrow> (('c, 'r) item list \<Rightarrow> error + ('o, 's) ures) \<Rightarrow> string
     \<Rightarrow> ('c, 'r) item list \<Rightarrow> nat list list \<Rightarrow> ('o, 's) ustate \<Rightarrow> nat \<times> nat list
     \<Rightarrow> error + ('o, 's) ustate" where
  "ufunc_step cfg B ufunc method inputs combos st g =
     (case (st, g) of ((outtags, outindex, out, cs), (outtag, combo)) \<Rightarrow>
        (let msk = eq_mask combos combo;
             outtags1 = mask_fill outtags msk (outtag mod 2 ^ TAGTYPE);
             outindex1 = assign_arange outindex msk
         in bnd (map_err (\<lambda>x. case x of
                              Union u \<Rightarrow> getitem cfg B u (WSel (SBoolArr msk))
                            | Branch r \<Rightarrow> Inr (Branch r)) inputs) (\<lambda>args.
            bnd (ufunc args) (\<lambda>result.
            (case result of
               ResTuple slots \<Rightarrow>
                 Inr (outtags1, outindex1,
                      (case out of None \<Rightarrow> Some slots | Some l \<Rightarrow> Some l),
                      collect_slots cs (zip [0..<length slots] slots))
             | ResArray a \<Rightarrow>
                 (if method = ''at'' then Inr (outtags1, outindex1, out, cs)
                  else Inr (outtags1, outindex1, out,
                         cs(None \<mapsto> (case cs None of None \<Rightarrow> [] | Some l \<Rightarrow> l) @ [a])))
             | ResOther s \<Rightarrow> Inr (outtags1, outindex1, out, cs))))))"

fun ufunc_loop ::
  "(('o, 's) ustate \<Rightarrow> nat \<times> nat list \<Rightarrow> error + ('o, 's) ustate) \<Rightarrow> ('o, 's) ustate
     \<Rightarrow> (nat \<times> nat list) list \<Rightarrow> error + ('o, 's) ustate" where
  "ufunc_loop step st [] = Inr st"
| "ufunc_loop step st (g # gs) = bnd (step st g) (\<lambda>st1. ufunc_loop step st1 gs)"

definition ufunc_finish ::
  "config \<Rightarrow> ('o, 's) ustate \<Rightarrow> error + ('o, 's) uout" where
  "ufunc_finish cfg st =
     (case st of (outtags, outindex, out, cs) \<Rightarrow>
        (case out of
           None \<Rightarrow>
             (case cs None of
                Some l \<Rightarrow> bnd (init cfg (map int outtags) outindex l) (\<lambda>u. Inr (OutUnion u))
              | None \<Rightarrow> Inr OutNone)
         | Some slots \<Rightarrow>
             bnd (map_err (\<lambda>(i, x). case cs (Some i) of
                                      Some l \<Rightarrow> bnd (init cfg (map int outtags) outindex l)
                                                  (\<lambda>u. Inr (Inl u))
                                    | None \<Rightarrow> Inr (Inr x))
                    (zip [0..<length slots] slots)) (\<lambda>l. Inr (OutTuple l))))"

text \<open>
  \<^verbatim>\<open>__array_ufunc__\<close>.  \<open>has_out\<close> is \<^verbatim>\<open>"out" in kwargs\<close>.  The tags of the union
  operands are collected after each has been validated; the assertion that there is at
  least one is an error of its own.
\<close>

definition array_ufunc ::
  "config \<Rightarrow> ('c, 'r, 'e) branch \<Rightarrow> (('c, 'r) item list \<Rightarrow> error + ('o, 's) ures) \<Rightarrow> string
     \<Rightarrow> bool \<Rightarrow> ('c, 'r) item list \<Rightarrow> error + ('o, 's) uout" where
  "array_ufunc cfg B ufunc method has_out inputs =
     (if has_out then Inl (NotImplementedError ''in-place operations not supported'')
      else if method \<noteq> ''__call__'' then Inr NotImplemented
      else
        bnd (map_err (\<lambda>x. case x of
                         Union u \<Rightarrow> bnd (valid cfg (blen B) u) (\<lambda>v. Inr [tags u])
                       | Branch r \<Rightarrow> Inr []) inputs) (\<lambda>collected.
        (let tagss = concat collected in
         if length tagss = 0 then Inl (RuntimeError ''AssertionError'')
         else if list_ex (\<lambda>x. shape x \<noteq> shape (hd tagss)) (tl tagss)
           then Inl (ValueError ''cannot apply the operation to UnionArrays because tag shapes differ'')
         else
           bnd (stack_view tagss) (\<lambda>combos.
           bnd (ufunc_loop (ufunc_step cfg B ufunc method inputs combos)
                  (replicate (length (hd tagss)) 0, replicate (length (hd tagss)) 0, None, Map.empty)
                  (zip [0..<length (np_unique combos)] (np_unique combos))) (\<lambda>st.
           ufunc_finish cfg st)))))"

section \<open>Two branch kinds\<close>

text \<open>
  A flat typed buffer (\<^verbatim>\<open>numpy.ndarray\<close> of one dimension): its length, and its read
  under \<^verbatim>\<open>(index,) + tail\<close>, which succeeds only with an empty tail (a flat buffer has one
  axis).  A flat buffer has no fields.
\<close>

definition nd_bget :: "'a list \<Rightarrow> int picked \<Rightarrow> sel list \<Rightarrow> error + 'a picked" where
  "nd_bget xs i tail =
     (if tail \<noteq> [] then Inl (IndexError ''too many indices for array'')
      else (case i of Scalar k \<Rightarrow> nd_getitem xs (SInt k) | Array ks \<Rightarrow> nd_getitem xs (SIntArr ks)))"

definition ndarray :: "('a list, 'a picked, 'e) branch" where
  "ndarray =
     \<lparr>blen = length,
      bget = nd_bget,
      bfield = (\<lambda>c w. Inl (IndexError ''only integers, slices, ellipsis, newaxis and integer or boolean arrays are valid indices'')),
      bset = (\<lambda>c x v. Inl (IndexError ''only integers, slices, ellipsis, newaxis and integer or boolean arrays are valid indices'')),
      bdel = (\<lambda>c x. Inl (ValueError ''cannot delete array elements''))\<rparr>"

text \<open>
  Modelled from the spec: the table-like branch (\<^verbatim>\<open>awkward/array/table.py\<close>) is not among
  the sources.  The spec consumes from branch arrays "length, \<dots>, field
  projection/assignment/deletion": a table is its number of rows and its named columns;
  projecting by a name returns the table of that one column, assigning a name stores the
  assigned view as that column, and deleting a name removes the column.  Positional reads
  of a table are not modelled.
\<close>

record 'e table =
  rows :: nat
  columns :: "(string \<times> 'e indexed) list"

definition table_field :: "'e table \<Rightarrow> wh \<Rightarrow> error + 'e table" where
  "table_field t w =
     (let names = (case w of WField f \<Rightarrow> [f] | WFields fs \<Rightarrow> fs | _ \<Rightarrow> [])
      in if list_all (\<lambda>f. f \<in> set (map fst (columns t))) names
         then Inr (t\<lparr>columns := filter (\<lambda>(k, v). k \<in> set names) (columns t)\<rparr>)
         else Inl (ValueError ''no column named so''))"

definition table_set :: "'e table \<Rightarrow> string \<Rightarrow> 'e indexed \<Rightarrow> error + 'e table" where
  "table_set t x v = Inr (t\<lparr>columns := AList.update x v (columns t)\<rparr>)"

definition table_del :: "'e table \<Rightarrow> string \<Rightarrow> error + 'e table" where
  "table_del t x =
     (if x \<in> set (map fst (columns t)) then Inr (t\<lparr>columns := AList.delete x (columns t)\<rparr>)
      else Inl (ValueError ''no column named so''))"

definition table :: "('e table, unit, 'e) branch" where
  "table =
     \<lparr>blen = rows,
      bget = (\<lambda>c i tail. Inl (NotImplementedError ''positional reads of a table are not modelled'')),
      bfield = table_field,
      bset = table_set,
      bdel = table_del\<rparr>"

section \<open>Concrete settings for the scenarios\<close>

text \<open>The configuration with every check switched on, and the values of a numeric buffer.\<close>

definition all_checks :: config where
  "all_checks = \<lparr>check_prop_valid = True, check_whole_valid = True, allow_iter = True\<rparr>"

datatype number = PyInt int | PyFloat real

section \<open>Type promotion: the lattice examples\<close>

lemma not_list_all: "t \<in> set ts \<Longrightarrow> \<not> P t \<Longrightarrow> \<not> list_all P ts"
  by (simp add: list_all_iff) blast

lemma not_lattice_object:
  assumes "\<exists>t\<in>set ts. \<not> in_lattice t"
  shows "uniondtype hf hc ts = ObjectT"
proof -
  from assms obtain t where t: "t \<in> set ts" and nt: "\<not> in_lattice t" by blast
  note nl = not_list_all [OF t]
  from nt have c:
    "\<not> list_all (\<lambda>x. x = BoolT) ts"
    "\<not> list_all (\<lambda>x. x = Int8) ts"
    "\<not> list_all (\<lambda>x. x = UInt8) ts"
    "\<not> list_all (\<lambda>x. x \<in> set [Int8, UInt8, Int16]) ts"
    "\<not> list_all (\<lambda>x. x \<in> set [UInt8, UInt16]) ts"
    "\<not> list_all (\<lambda>x. x \<in> set [Int8, UInt8, Int16, UInt16, Int32]) ts"
    "\<not> list_all (\<lambda>x. x \<in> set [UInt8, UInt16, UInt32]) ts"
    "\<not> list_all (\<lambda>x. x \<in> set [Int8, UInt8, Int16, UInt16, Int32, UInt32, Int64]) ts"
    "\<not> list_all (\<lambda>x. x \<in> set [UInt8, UInt16, UInt32, UInt64]) ts"
    "\<not> list_all (\<lambda>x. x = Float16) ts"
    "\<not> list_all (\<lambda>x. x \<in> set [Float16, Float32]) ts"
    "\<not> list_all (\<lambda>x. x \<in> set [Float16, Float32, Float64]) ts"
    "\<not> list_all (\<lambda>x. x \<in> set [Float16, Float32, Float64, Float128]) ts"
    "\<not> list_all (\<lambda>x. is_integer x \<or> is_floating x) ts"
    "\<not> list_all (\<lambda>x. x = Complex64) ts"
    "\<not> list_all (\<lambda>x. x \<in> set [Complex64, Complex128]) ts"
    "\<not> list_all (\<lambda>x. x \<in> set [Complex64, Complex128, Complex256]) ts"
    "\<not> list_all (\<lambda>x. is_integer x \<or> is_floating x \<or> is_complexfloating x) ts"
    by (auto intro!: nl simp: in_lattice_def is_integer_def is_floating_def is_complexfloating_def)
  show ?thesis
    unfolding uniondtype_def by (simp only: c if_False simp_thms)
qed

text \<open>
  C7.  The promotion is a function of the list of branch element types alone.  It sends
  \<open>{int8, int8}\<close> to \<open>int8\<close>, \<open>{int8, uint8}\<close> to \<open>int16\<close>, \<open>{float32, float64}\<close> to
  \<open>float64\<close>, \<open>{int32, float32}\<close> to \<open>float64\<close> and \<open>{complex64, float64}\<close> to
  \<open>complex128\<close>, in either order and whether or not the wide float and complex types
  exist; and every list that holds a type outside the boolean, integer, floating and
  complex classes is promoted to the opaque object type.
\<close>

theorem uniondtype_lattice:
  "uniondtype hf hc [Int8, Int8] = Int8
   \<and> uniondtype hf hc [Int8, UInt8] = Int16
   \<and> uniondtype hf hc [UInt8, Int8] = Int16
   \<and> uniondtype hf hc [Float32, Float64] = Float64
   \<and> uniondtype hf hc [Float64, Float32] = Float64
   \<and> uniondtype hf hc [Int32, Float32] = Float64
   \<and> uniondtype hf hc [Float32, Int32] = Float64
   \<and> uniondtype hf hc [Complex64, Float64] = Complex128
   \<and> uniondtype hf hc [Float64, Complex64] = Complex128
   \<and> (\<forall>ts. (\<exists>t\<in>set ts. \<not> in_lattice t) \<longrightarrow> uniondtype hf hc ts = ObjectT)"
proof -
  have ex: "uniondtype hf hc [Int8, Int8] = Int8"
    "uniondtype hf hc [Int8, UInt8] = Int16"
    "uniondtype hf hc [UInt8, Int8] = Int16"
    "uniondtype hf hc [Float32, Float64] = Float64"
    "uniondtype hf hc [Float64, Float32] = Float64"
    "uniondtype hf hc [Int32, Float32] = Float64"
    "uniondtype hf hc [Float32, Int32] = Float64"
    "uniondtype hf hc [Complex64, Float64] = Complex128"
    "uniondtype hf hc [Float64, Complex64] = Complex128"
    by (simp_all add: uniondtype_def is_integer_def is_floating_def is_complexfloating_def)
  show ?thesis using ex not_lattice_object by blast
qed

theorem uniondtype_lattice_witness:
  "(\<exists>t\<in>set [Int8, StrT]. \<not> in_lattice t) \<and> uniondtype True True [Int8, StrT] = ObjectT
   \<and> uniondtype True True [Int8, UInt8] = Int16"
proof -
  have h: "\<exists>t\<in>set [Int8, StrT]. \<not> in_lattice t"
    by (simp add: in_lattice_def is_integer_def is_floating_def is_complexfloating_def)
  from uniondtype_lattice [of True True] h show ?thesis by blast
qed

end
